theory Spec2Isabelle
  imports Main "HOL-Library.Word"
begin

section \<open>Data model (internal/state/state.go)\<close>

type_synonym int16 = "16 word"
type_synonym uint8 = "8 word"
type_synonym uint32 = "32 word"
type_synonym uint64 = "64 word"

text \<open>The Go type \<open>ConnectionState\<close> is a string type with five named constants.\<close>

datatype ConnectionState =
  StateDisconnected | StateConnecting | StateObtaining | StateConnected | StateFailed

text \<open>
  \<open>Network\<close>: the field \<open>Frequency\<close> of the Go struct is called \<open>NetFrequency\<close> here,
  because \<open>State\<close> has a field of the same name.
\<close>

record Network =
  SSID :: string
  Security :: string
  SignalDBm :: int16
  Signal :: uint8
  Connected :: bool
  Saved :: bool
  NetFrequency :: uint32
  ObjectPath :: string

text \<open>\<open>State\<close>: every field of the Go struct; \<open>ResumeTimestamp\<close> is an instant in nanoseconds.\<close>

record State =
  WifiEnabled :: bool
  WifiScanning :: bool
  ConnectionState :: ConnectionState
  ActiveSSID :: string
  ConnectingSSID :: string
  ActiveSecurity :: string
  SignalRSSI :: int16
  SignalStrength :: uint8
  Frequency :: uint32
  InterfaceName :: string
  MacAddress :: string
  IpAddress :: string
  Gateway :: string
  TrafficIn :: uint64
  TrafficOut :: uint64
  Networks :: "Network list"
  SavedNetworks :: "string list"
  AirplaneMode :: bool
  CaptivePortalDetected :: bool
  CaptivePortalURL :: string
  LastCaptiveCheckSSID :: string
  HotspotActive :: bool
  HotspotSSID :: string
  ConnectionType :: string
  UsbInterfaceDetected :: bool
  UsbTetheringAvailable :: bool
  UsbTetheringConnected :: bool
  UsbInterfaceName :: string
  UsbInterfaceIndex :: uint32
  LastError :: string
  WasResumed :: bool
  ResumeTimestamp :: int
  WeatherTriggered :: bool
  IsStartup :: bool

text \<open>
  \<open>Manager\<close>: the guarded snapshot. The registered \<open>onChange\<close> callback is modelled by
  the log \<open>notified\<close> of the snapshot copies it has been called with, oldest first.
\<close>

record Manager =
  state :: State
  notified :: "State list"

text \<open>\<open>NewManager\<close>: Go zero values everywhere, \<open>ConnectionState\<close> disconnected.\<close>

definition zero_State :: State where
  "zero_State = \<lparr> WifiEnabled = False, WifiScanning = False,
     ConnectionState = StateDisconnected,
     ActiveSSID = [], ConnectingSSID = [], ActiveSecurity = [],
     SignalRSSI = 0, SignalStrength = 0, Frequency = 0,
     InterfaceName = [], MacAddress = [], IpAddress = [], Gateway = [],
     TrafficIn = 0, TrafficOut = 0, Networks = [], SavedNetworks = [],
     AirplaneMode = False, CaptivePortalDetected = False, CaptivePortalURL = [],
     LastCaptiveCheckSSID = [], HotspotActive = False, HotspotSSID = [],
     ConnectionType = [],
     UsbInterfaceDetected = False, UsbTetheringAvailable = False,
     UsbTetheringConnected = False, UsbInterfaceName = [], UsbInterfaceIndex = 0,
     LastError = [], WasResumed = False, ResumeTimestamp = 0,
     WeatherTriggered = False, IsStartup = False \<rparr>"

definition NewManager :: Manager where
  "NewManager = \<lparr> state = zero_State, notified = [] \<rparr>"

definition Get :: "Manager \<Rightarrow> State" where
  "Get m = state m"

text \<open>\<open>Update\<close>: run the mutator on the snapshot, then call \<open>onChange\<close> with a copy.\<close>

definition Update :: "(State \<Rightarrow> State) \<Rightarrow> Manager \<Rightarrow> Manager" where
  "Update fn m = \<lparr> state = fn (state m), notified = notified m @ [fn (state m)] \<rparr>"

text \<open>
  \<open>DBmToPercent\<close>: the comparisons are signed 16-bit comparisons; the last branch computes
  in Go's \<open>int\<close> (no overflow for a 16-bit argument) and converts to \<open>uint8\<close>, which keeps
  the low eight bits.
\<close>

definition DBmToPercent :: "int16 \<Rightarrow> uint8" where
  "DBmToPercent dBm =
     (if sint dBm \<le> - 100 then 0
      else if sint dBm \<ge> - 50 then 100
      else word_of_int (2 * (sint dBm + 100)))"

definition FrequencyToBand :: "uint32 \<Rightarrow> string" where
  "FrequencyToBand freq =
     (if freq \<ge> 2400 \<and> freq < 2500 then ''2.4GHz''
      else if freq \<ge> 5000 \<and> freq < 6000 then ''5GHz''
      else if freq \<ge> 6000 then ''6GHz''
      else ''unknown'')"

section \<open>Credential agent (internal/iwd/agent.go)\<close>

text \<open>
  Instants and durations are integers in nanoseconds. \<open>time.Since\<close> is the difference of
  two instants, saturated to the range of Go's \<open>Duration\<close> (a signed 64-bit count).
\<close>

definition CredentialTTL :: int where
  "CredentialTTL = 30 * 1000000000"

definition since :: "int \<Rightarrow> int \<Rightarrow> int" where
  "since now t = max (- (2 ^ 63)) (min (2 ^ 63 - 1) (now - t))"

record PendingCredential =
  Password :: string
  Created :: int

text \<open>\<open>Agent\<close>: the map from network object path to pending credential.\<close>

record Agent =
  pending :: "string \<rightharpoonup> PendingCredential"

text \<open>The bus error \<open>net.connman.iwd.Agent.Error.Canceled\<close> with its message.\<close>

datatype dbus_error = Canceled string

definition NewAgent :: Agent where
  "NewAgent = \<lparr> pending = Map.empty \<rparr>"

definition SetPending :: "int \<Rightarrow> string \<Rightarrow> string \<Rightarrow> Agent \<Rightarrow> Agent" where
  "SetPending now network password a =
     a\<lparr> pending := (pending a)(network \<mapsto> \<lparr> Password = password, Created = now \<rparr>) \<rparr>"

definition ClearPending :: "string \<Rightarrow> Agent \<Rightarrow> Agent" where
  "ClearPending network a = a\<lparr> pending := (pending a)(network := None) \<rparr>"

definition RequestPassphrase :: "int \<Rightarrow> string \<Rightarrow> Agent \<Rightarrow> Agent \<times> (dbus_error + string)" where
  "RequestPassphrase now network a =
     (case pending a network of
        None \<Rightarrow> (a, Inl (Canceled ''No credential available''))
      | Some cred \<Rightarrow>
          if since now (Created cred) > CredentialTTL
          then (a\<lparr> pending := (pending a)(network := None) \<rparr>,
                Inl (Canceled ''Credential expired''))
          else (a\<lparr> pending := (pending a)(network := None) \<rparr>, Inr (Password cred)))"

definition Cancel :: "string \<Rightarrow> Agent \<Rightarrow> Agent" where
  "Cancel reason a = a\<lparr> pending := Map.empty \<rparr>"

definition Release :: "Agent \<Rightarrow> Agent" where
  "Release a = a\<lparr> pending := Map.empty \<rparr>"

section \<open>Supplicant client (internal/iwd/client.go)\<close>

text \<open>
  The fields of \<open>Client\<close> that the modelled operations read or write. Object paths are
  strings; \<open>agent\<close> is \<open>None\<close> for the nil pointer.
\<close>

record Client =
  devicePath :: string
  stationPath :: string
  initialized :: bool
  agent :: "Agent option"
  connectID :: uint64

text \<open>\<open>handleIWDDisappear\<close>: three field writes on the client, then one \<open>Update\<close>.\<close>

definition handleIWDDisappear :: "Client \<Rightarrow> Manager \<Rightarrow> Client \<times> Manager" where
  "handleIWDDisappear c m =
     (c\<lparr> initialized := False, devicePath := [], stationPath := [] \<rparr>,
      Update (\<lambda>st. st\<lparr> WifiEnabled := False, WifiScanning := False,
                         ConnectionState := StateDisconnected,
                         ActiveSSID := [], SignalStrength := 0 \<rparr>) m)"

text \<open>
  The \<open>NameOwnerChanged\<close> branch of the lifecycle goroutine. The signal body is the
  triple (name, old owner, new owner); \<open>maybeInit\<close> stands for \<open>maybeInitIWD\<close>, which
  talks to the bus and is a parameter here.
\<close>

definition onNameOwnerChanged ::
  "(Client \<times> Manager \<Rightarrow> Client \<times> Manager) \<Rightarrow> string \<Rightarrow> string \<Rightarrow> string \<Rightarrow>
   Client \<Rightarrow> Manager \<Rightarrow> Client \<times> Manager" where
  "onNameOwnerChanged maybeInit name oldOwner newOwner c m =
     (if name = ''net.connman.iwd'' then
        (if oldOwner = [] \<and> newOwner \<noteq> [] then maybeInit (c, m)
         else if oldOwner \<noteq> [] \<and> newOwner = [] then handleIWDDisappear c m
         else (c, m))
      else (c, m))"

subsection \<open>What the supplicant answers\<close>

text \<open>
  The reply of \<open>Properties.GetAll\<close> on the Network interface of one object: each property
  the code reads, \<open>None\<close> when the key is absent from the reply.
\<close>

record NetworkProps =
  prop_Name :: "string option"
  prop_Type :: "string option"
  prop_Connected :: "bool option"
  prop_KnownNetwork :: "string option"

text \<open>
  \<open>Bus\<close>: the supplicant as the client sees it at one moment. \<open>GetAll path\<close> is \<open>None\<close>
  when the call fails; \<open>GetOrderedNetworks\<close> is \<open>None\<close> when the call or its decoding
  fails, and otherwise the list of (path, RSSI in 1/100 dBm).
\<close>

record Bus =
  GetAll :: "string \<Rightarrow> NetworkProps option"
  GetOrderedNetworks :: "(string \<times> int16) list option"

text \<open>Go's integer division truncates towards zero; \<open>rssi / 100\<close> is a 16-bit division.\<close>

definition quot :: "int \<Rightarrow> int \<Rightarrow> int" where
  "quot a b = sgn a * sgn b * (\<bar>a\<bar> div \<bar>b\<bar>)"

definition rssi_to_dBm :: "int16 \<Rightarrow> int16" where
  "rssi_to_dBm rssi = word_of_int (quot (sint rssi) 100)"

definition getNetworkInfo :: "Bus \<Rightarrow> string \<Rightarrow> int16 \<Rightarrow> Network option" where
  "getNetworkInfo bus path rssi =
     (case GetAll bus path of
        None \<Rightarrow> None
      | Some props \<Rightarrow>
          let net = \<lparr> SSID = [], Security = [], SignalDBm = rssi_to_dBm rssi,
                      Signal = DBmToPercent (rssi_to_dBm rssi), Connected = False,
                      Saved = False, NetFrequency = 0, ObjectPath = path \<rparr>;
              net = (case prop_Name props of Some v \<Rightarrow> net\<lparr> SSID := v \<rparr> | None \<Rightarrow> net);
              net = (case prop_Type props of Some v \<Rightarrow> net\<lparr> Security := v \<rparr> | None \<Rightarrow> net);
              net = (case prop_Connected props of Some v \<Rightarrow> net\<lparr> Connected := v \<rparr>
                     | None \<Rightarrow> net);
              net = (case prop_KnownNetwork props of Some v \<Rightarrow> net\<lparr> Saved := (v \<noteq> []) \<rparr>
                     | None \<Rightarrow> net)
          in Some net)"

text \<open>The loop of \<open>fetchNetworksFromIWD\<close> over the ordered networks.\<close>

fun fetch_loop :: "Bus \<Rightarrow> string \<Rightarrow> (string \<times> int16) list \<Rightarrow> Network list" where
  "fetch_loop bus activeSSID [] = []"
| "fetch_loop bus activeSSID ((path, rssi) # rs) =
     (case getNetworkInfo bus path rssi of
        None \<Rightarrow> fetch_loop bus activeSSID rs
      | Some net \<Rightarrow>
          (if SSID net = activeSSID \<and> activeSSID \<noteq> [] then net\<lparr> Connected := True \<rparr>
           else net) # fetch_loop bus activeSSID rs)"

text \<open>\<open>fetchNetworksFromIWD\<close>: \<open>None\<close> is the nil slice returned on a failed call.\<close>

definition fetchNetworksFromIWD :: "Bus \<Rightarrow> Manager \<Rightarrow> Network list option" where
  "fetchNetworksFromIWD bus m =
     (case GetOrderedNetworks bus of
        None \<Rightarrow> None
      | Some result \<Rightarrow> Some (fetch_loop bus (ActiveSSID (Get m)) result))"

text \<open>
  Every caller publishes the fetched list the same way: if it is not nil, one \<open>Update\<close>
  that stores it in \<open>Networks\<close>.
\<close>

definition publishNetworks :: "Bus \<Rightarrow> Manager \<Rightarrow> Manager" where
  "publishNetworks bus m =
     (case fetchNetworksFromIWD bus m of
        None \<Rightarrow> m
      | Some networks \<Rightarrow> Update (\<lambda>st. st\<lparr> Networks := networks \<rparr>) m)"

subsection \<open>Active network details\<close>

fun find_active :: "(string \<times> int16) list \<Rightarrow> string \<Rightarrow> int16 option" where
  "find_active [] activePath = None"
| "find_active ((path, rssi) # rs) activePath =
     (if path = activePath then Some rssi else find_active rs activePath)"

definition fetchActiveSignal :: "Bus \<Rightarrow> string \<Rightarrow> State \<Rightarrow> State" where
  "fetchActiveSignal bus activePath st =
     (case GetOrderedNetworks bus of
        None \<Rightarrow> st
      | Some result \<Rightarrow>
          (case find_active result activePath of
             None \<Rightarrow> st
           | Some rssi \<Rightarrow> st\<lparr> SignalRSSI := rssi_to_dBm rssi,
                                SignalStrength := DBmToPercent (rssi_to_dBm rssi) \<rparr>))"

definition fetchNetworkDetails :: "Bus \<Rightarrow> string \<Rightarrow> State \<Rightarrow> State" where
  "fetchNetworkDetails bus path st =
     (if path = [] then st
      else case GetAll bus path of
        None \<Rightarrow> st
      | Some props \<Rightarrow>
          let st = (case prop_Name props of Some v \<Rightarrow> st\<lparr> ActiveSSID := v \<rparr> | None \<Rightarrow> st);
              st = (case prop_Type props of Some v \<Rightarrow> st\<lparr> ActiveSecurity := v \<rparr>
                    | None \<Rightarrow> st)
          in fetchActiveSignal bus path st)"

text \<open>The changed properties of a Station signal: each key the handler reads.\<close>

record StationProps =
  sp_State :: "string option"
  sp_Scanning :: "bool option"
  sp_ConnectedNetwork :: "string option"

text \<open>
  The mutator of \<open>handleStationChange\<close>. The second component is the interface name the
  handler starts \<open>tryUsbFallback\<close> on, if it starts one.
\<close>

definition stationStateMutator :: "string \<Rightarrow> State \<Rightarrow> State \<times> string option" where
  "stationStateMutator stateStr st =
     (let prevState = ConnectionState st in
      if stateStr = ''disconnected'' then
        (let st1 = st\<lparr> ConnectionState := StateDisconnected, ActiveSSID := [],
                         ConnectingSSID := [] \<rparr>;
             st2 = (if prevState = StateConnecting
                    then st1\<lparr> LastError := ''Authentication failed'',
                              ConnectionState := StateFailed \<rparr>
                    else st1)
         in (st2, if prevState = StateConnected \<and> UsbTetheringAvailable st2
                     \<and> UsbInterfaceName st2 \<noteq> []
                  then Some (UsbInterfaceName st2) else None))
      else if stateStr = ''connecting'' then
        (st\<lparr> ConnectionState := StateConnecting, LastError := [] \<rparr>, None)
      else if stateStr = ''connected'' then
        (st\<lparr> ConnectionState := StateConnected, ConnectingSSID := [], LastError := [] \<rparr>,
         None)
      else if stateStr = ''roaming'' then
        (st\<lparr> ConnectionState := StateConnected \<rparr>, None)
      else (st, None))"

definition stationChangeMutator :: "Bus \<Rightarrow> StationProps \<Rightarrow> State \<Rightarrow> State \<times> string option" where
  "stationChangeMutator bus props st =
     (let (st, spawn) = (case sp_State props of
                           Some stateStr \<Rightarrow> stationStateMutator stateStr st
                         | None \<Rightarrow> (st, None));
          st = (case sp_Scanning props of Some v \<Rightarrow> st\<lparr> WifiScanning := v \<rparr> | None \<Rightarrow> st);
          st = (case sp_ConnectedNetwork props of
                  Some networkPath \<Rightarrow> fetchNetworkDetails bus networkPath st
                | None \<Rightarrow> st)
      in (st, spawn))"

text \<open>
  \<open>tryUsbFallback\<close>: the two helper processes either succeed or fail; only when both
  succeed is the state written.
\<close>

definition tryUsbFallback :: "bool \<Rightarrow> bool \<Rightarrow> string \<Rightarrow> Manager \<Rightarrow> Manager" where
  "tryUsbFallback linkUpOk dhcpOk ifaceName m =
     (if \<not> linkUpOk then m
      else if \<not> dhcpOk then m
      else Update (\<lambda>st. st\<lparr> UsbTetheringConnected := True, ConnectionType := ''usb'' \<rparr>) m)"


text \<open>
  \<open>handleStationChange\<close>: one update with the mutator; then, if the signal says that
  scanning has stopped, the networks are fetched (from the supplicant as it is by then,
  \<open>bus'\<close>) and published. The detached refresh after \<open>connected\<close> is a later
  \<open>publishNetworks\<close> of its own.
\<close>

definition handleStationChange ::
  "Bus \<Rightarrow> Bus \<Rightarrow> StationProps \<Rightarrow> Manager \<Rightarrow> Manager \<times> string option" where
  "handleStationChange bus bus' props m =
     (let scanCompleted = (case sp_Scanning props of Some scanning \<Rightarrow> \<not> scanning
                           | None \<Rightarrow> False);
          spawn = snd (stationChangeMutator bus props (state m));
          m = Update (\<lambda>st. fst (stationChangeMutator bus props st)) m;
          m = (if scanCompleted then publishNetworks bus' m else m)
      in (m, spawn))"

subsection \<open>Connect\<close>

datatype connect_error = ScanFailed string | NetworkNotFound string | CallFailed string

text \<open>
  \<open>Connect\<close> runs in three parts, separated by calls that block on the supplicant. First,
  under the connect mutex: increment the counter and capture it.
\<close>

definition Connect_begin :: "Client \<Rightarrow> Client \<times> uint64" where
  "Connect_begin c =
     (let c = c\<lparr> connectID := connectID c + 1 \<rparr> in (c, connectID c))"

text \<open>The loop that looks the SSID up in the scanned networks: (path, security).\<close>

fun find_network :: "Network list \<Rightarrow> string \<Rightarrow> string \<times> string" where
  "find_network [] ssid = ([], [])"
| "find_network (net # networks) ssid =
     (if SSID net = ssid then (ObjectPath net, Security net) else find_network networks ssid)"

text \<open>
  Second, from the return of \<open>Scan\<close> (an error text, or the networks) to the moment
  before the association call: resolve the path, store the pending credential, set
  \<open>ConnectingSSID\<close>. The result carries the resolved network path.
\<close>

definition Connect_prepare ::
  "int \<Rightarrow> string + Network list \<Rightarrow> string \<Rightarrow> string \<Rightarrow> string \<Rightarrow> bool \<Rightarrow>
   Client \<Rightarrow> Manager \<Rightarrow> connect_error + (string \<times> Client \<times> Manager)" where
  "Connect_prepare now scan ssid password security hidden c m =
     (case scan of
        Inl err \<Rightarrow> Inl (ScanFailed err)
      | Inr networks \<Rightarrow>
          let (networkPath, networkSecurity) = find_network networks ssid in
          if networkPath = [] \<and> \<not> hidden then Inl (NetworkNotFound ssid)
          else
            let netPath = networkPath;
                c = (if password \<noteq> [] \<and> (networkSecurity = ''psk'' \<or> security = ''psk''
                          \<or> networkSecurity = ''wpa2'' \<or> networkSecurity = ''wpa3'')
                     then (case agent c of
                             Some a \<Rightarrow> c\<lparr> agent := Some (SetPending now netPath password a) \<rparr>
                           | None \<Rightarrow> c)
                     else c);
                m = Update (\<lambda>st. st\<lparr> ConnectingSSID := ssid \<rparr>) m
            in Inr (netPath, c, m))"

text \<open>
  Third, after the association call has returned (\<open>err\<close> is its error, if any): under the
  connect mutex, clear \<open>ConnectingSSID\<close> if the captured counter is still current; then
  drop the pending credential if the call failed.
\<close>

definition Connect_clear :: "uint64 \<Rightarrow> Client \<Rightarrow> Manager \<Rightarrow> Manager" where
  "Connect_clear myConnectID c m =
     (if connectID c = myConnectID
      then Update (\<lambda>st. st\<lparr> ConnectingSSID := [] \<rparr>) m
      else m)"

definition Connect_return ::
  "uint64 \<Rightarrow> string \<Rightarrow> bool \<Rightarrow> string option \<Rightarrow> Client \<Rightarrow> Manager \<Rightarrow>
   Client \<times> Manager \<times> connect_error option" where
  "Connect_return myConnectID netPath hidden err c m =
     (if hidden then
        (let m = Connect_clear myConnectID c m;
             c = (if err \<noteq> None \<and> agent c \<noteq> None
                  then c\<lparr> agent := map_option (ClearPending netPath) (agent c) \<rparr> else c)
         in (c, m, map_option CallFailed err))
      else
        (let m = Connect_clear myConnectID c m;
             c = (if err \<noteq> None
                  then (if agent c \<noteq> None
                        then c\<lparr> agent := map_option (ClearPending netPath) (agent c) \<rparr> else c)
                  else c)
         in (c, m, map_option CallFailed err)))"

text \<open>
  Concurrent \<open>Connect\<close> calls interleave at the points where one part ends. A call is
  named by a number; \<open>captured\<close> holds the counter value each call has captured.
\<close>

datatype connect_event = CBegin nat | CSet nat string | CReturn nat

record connect_sys =
  cs_client :: Client
  cs_mgr :: Manager
  cs_captured :: "nat \<rightharpoonup> uint64"

fun connect_step :: "connect_sys \<Rightarrow> connect_event \<Rightarrow> connect_sys" where
  "connect_step s (CBegin k) =
     (let (c, myConnectID) = Connect_begin (cs_client s)
      in s\<lparr> cs_client := c, cs_captured := (cs_captured s)(k \<mapsto> myConnectID) \<rparr>)"
| "connect_step s (CSet k ssid) =
     s\<lparr> cs_mgr := Update (\<lambda>st. st\<lparr> ConnectingSSID := ssid \<rparr>) (cs_mgr s) \<rparr>"
| "connect_step s (CReturn k) =
     (case cs_captured s k of
        None \<Rightarrow> s
      | Some myConnectID \<Rightarrow> s\<lparr> cs_mgr := Connect_clear myConnectID (cs_client s) (cs_mgr s) \<rparr>)"

definition connect_run :: "connect_sys \<Rightarrow> connect_event list \<Rightarrow> connect_sys" where
  "connect_run s evs = foldl connect_step s evs"

fun is_CBegin :: "connect_event \<Rightarrow> bool" where
  "is_CBegin (CBegin k) = True"
| "is_CBegin _ = False"

definition connect_init :: "Client \<Rightarrow> Manager \<Rightarrow> connect_sys" where
  "connect_init c m = \<lparr> cs_client = c\<lparr> connectID := 0 \<rparr>, cs_mgr = m, cs_captured = Map.empty \<rparr>"

section \<open>Kernel event watcher (package netlink)\<close>

text \<open>What sysfs says about an interface name when a handler asks.\<close>

record Sysfs =
  isUsbInterface :: "string \<Rightarrow> bool"
  isWifiInterface :: "string \<Rightarrow> bool"
  isPhysicalInterface :: "string \<Rightarrow> bool"

definition getConnectionType :: "Sysfs \<Rightarrow> string \<Rightarrow> string" where
  "getConnectionType sys iface =
     (if isUsbInterface sys iface then ''usb''
      else if isWifiInterface sys iface then ''wifi''
      else if isPhysicalInterface sys iface then ''ethernet''
      else ''unknown'')"

text \<open>
  A parsed link message: name, index, whether the operational state is up, whether the
  carrier attribute is present and 1; \<open>lm_Address\<close> is the hardware address as text.
\<close>

record LinkMessage =
  lm_Name :: string
  lm_Index :: uint32
  lm_isUp :: bool
  lm_hasCarrier :: bool
  lm_Address :: string

text \<open>
  \<open>handleLinkMessage\<close>: \<open>data\<close> is \<open>None\<close> when the message does not parse. The log
  deduplication table and the helper processes started on the rising edge of the carrier
  do not write the state and are left out.
\<close>

definition handleLinkMessage :: "Sysfs \<Rightarrow> LinkMessage option \<Rightarrow> bool \<Rightarrow> Manager \<Rightarrow> Manager" where
  "handleLinkMessage sys data isRemoved m =
     (case data of
        None \<Rightarrow> m
      | Some msg \<Rightarrow>
          let ifaceName = lm_Name msg; ifaceIndex = lm_Index msg in
          if ifaceName = [] \<or> ifaceName = ''lo'' then m
          else if isRemoved then
            Update (\<lambda>st. if UsbInterfaceIndex st = ifaceIndex
                          then st\<lparr> UsbInterfaceDetected := False,
                                   UsbTetheringAvailable := False,
                                   UsbTetheringConnected := False,
                                   UsbInterfaceName := [],
                                   UsbInterfaceIndex := 0 \<rparr>
                          else st) m
          else
            let isUp = lm_isUp msg; hasCarrier = lm_hasCarrier msg;
                isUsb = isUsbInterface sys ifaceName
            in Update (\<lambda>st.
                 let st = (if isUsb then
                             (let st = st\<lparr> UsbInterfaceDetected := True,
                                             UsbInterfaceName := ifaceName,
                                             UsbInterfaceIndex := ifaceIndex \<rparr>
                              in if hasCarrier then
                                   (if \<not> UsbTetheringAvailable st
                                    then st\<lparr> UsbTetheringAvailable := True \<rparr> else st)
                                 else st\<lparr> UsbTetheringAvailable := False,
                                          UsbTetheringConnected := False \<rparr>)
                           else st)
                 in if \<not> isUsb \<and> isUp \<and> (InterfaceName st = ifaceName \<or> InterfaceName st = [])
                    then st\<lparr> InterfaceName := ifaceName,
                             ConnectionType := getConnectionType sys ifaceName \<rparr>
                    else st) m)"

text \<open>
  Addresses are byte sequences (\<open>net.IP\<close>; nil is the empty sequence). Their text form
  comes from the standard library and is the parameter \<open>ipString\<close> of the handlers.
\<close>

type_synonym IP = "uint8 list"

definition To4 :: "IP \<Rightarrow> IP" where
  "To4 ip =
     (if length ip = 4 then ip
      else if length ip = 16 \<and> take 10 ip = replicate 10 0 \<and> ip ! 10 = 255 \<and> ip ! 11 = 255
      then drop 12 ip
      else [])"

record AddressMessage =
  am_Index :: uint32
  am_Address :: IP

record Route =
  rt_DstNil :: bool
  rt_Gateway :: "string option"
  rt_OutIface :: uint32

text \<open>
  What the routing socket answers during one address event: the link list, the route list
  read inside the mutator, and the route list read by \<open>fetchGateway\<close> (\<open>None\<close>: the call
  failed).
\<close>

record RtConn =
  Link_List :: "LinkMessage list option"
  Route_List_check :: "Route list option"
  Route_List_gateway :: "Route list option"

definition checkDefaultRouteViaInterface :: "Route list option \<Rightarrow> uint32 \<Rightarrow> bool" where
  "checkDefaultRouteViaInterface routes ifaceIndex =
     (case routes of
        None \<Rightarrow> False
      | Some rs \<Rightarrow> list_ex (\<lambda>route. rt_DstNil route \<and> rt_Gateway route \<noteq> None
                                      \<and> rt_OutIface route = ifaceIndex) rs)"

fun first_default_gateway :: "Route list \<Rightarrow> string option" where
  "first_default_gateway [] = None"
| "first_default_gateway (route # rs) =
     (if rt_DstNil route \<and> rt_Gateway route \<noteq> None then rt_Gateway route
      else first_default_gateway rs)"

definition fetchGateway :: "Route list option \<Rightarrow> Manager \<Rightarrow> Manager" where
  "fetchGateway routes m =
     (case routes of
        None \<Rightarrow> m
      | Some rs \<Rightarrow>
          (case first_default_gateway rs of
             None \<Rightarrow> m
           | Some gw \<Rightarrow> Update (\<lambda>st. st\<lparr> Gateway := gw \<rparr>) m))"

fun link_name_by_index :: "LinkMessage list \<Rightarrow> uint32 \<Rightarrow> string" where
  "link_name_by_index [] idx = []"
| "link_name_by_index (link # links) idx =
     (if lm_Index link = idx then lm_Name link else link_name_by_index links idx)"

text \<open>The mutator of \<open>handleAddressMessage\<close>.\<close>

definition addressMutator ::
  "bool \<Rightarrow> bool \<Rightarrow> string \<Rightarrow> string \<Rightarrow> State \<Rightarrow> State" where
  "addressMutator isUsb hasRoute ifaceName ipText st =
     (let st = (if isUsb \<and> UsbInterfaceName st = ifaceName then
                  (let st = st\<lparr> IpAddress := ipText \<rparr>
                   in if hasRoute
                      then st\<lparr> UsbTetheringConnected := True, ConnectionType := ''usb'' \<rparr>
                      else st)
                else st)
      in if \<not> isUsb \<and> InterfaceName st = ifaceName then
           (let st = st\<lparr> IpAddress := ipText \<rparr>
            in if ConnectionState st = StateConnecting \<or> ConnectionState st = StateObtaining
               then st\<lparr> ConnectionState := StateConnected \<rparr> else st)
         else st)"

text \<open>
  \<open>handleAddressMessage\<close>, with the two weather triggers that follow the mutator (the
  external tool they start does not write the state) and the gateway refresh.
\<close>

definition handleAddressMessage ::
  "(IP \<Rightarrow> string) \<Rightarrow> Sysfs \<Rightarrow> RtConn \<Rightarrow> int \<Rightarrow> AddressMessage option \<Rightarrow> bool \<Rightarrow>
   Manager \<Rightarrow> Manager" where
  "handleAddressMessage ipString sys rt now data isRemoved m =
     (case data of
        None \<Rightarrow> m
      | Some msg \<Rightarrow>
          if isRemoved then m
          else (case Link_List rt of
            None \<Rightarrow> m
          | Some links \<Rightarrow>
              let ifaceName = link_name_by_index links (am_Index msg) in
              if ifaceName = [] \<or> ifaceName = ''lo'' then m
              else
                let ip = am_Address msg; ifaceIndex = am_Index msg;
                    isUsb = isUsbInterface sys ifaceName;
                    m = Update (addressMutator isUsb
                          (checkDefaultRouteViaInterface (Route_List_check rt) ifaceIndex)
                          ifaceName (ipString ip)) m;
                    currentState = Get m;
                    m = (if WasResumed currentState \<and> \<not> WeatherTriggered currentState
                            \<and> since now (ResumeTimestamp currentState) < 60 * 1000000000
                            \<and> ip \<noteq> [] \<and> To4 ip \<noteq> []
                         then Update (\<lambda>st. st\<lparr> WasResumed := False,
                                                  WeatherTriggered := True \<rparr>) m
                         else m);
                    m = (if IsStartup currentState \<and> \<not> WeatherTriggered currentState
                            \<and> ip \<noteq> [] \<and> To4 ip \<noteq> []
                         then Update (\<lambda>st. st\<lparr> IsStartup := False,
                                                  WeatherTriggered := True \<rparr>) m
                         else m)
                in fetchGateway (Route_List_gateway rt) m))"

text \<open>\<open>fetchInterfaces\<close>: the initial enumeration of links, one or two updates per link.\<close>

fun fetchInterfaces_loop :: "Sysfs \<Rightarrow> LinkMessage list \<Rightarrow> Manager \<Rightarrow> Manager" where
  "fetchInterfaces_loop sys [] m = m"
| "fetchInterfaces_loop sys (link # links) m =
     (if lm_Name link = ''lo'' then fetchInterfaces_loop sys links m
      else
        let ifaceName = lm_Name link; isUp = lm_isUp link; hasCarrier = lm_hasCarrier link;
            m = (if isUsbInterface sys ifaceName then
                   Update (\<lambda>st.
                     let st = st\<lparr> UsbInterfaceDetected := True,
                                    UsbInterfaceName := ifaceName,
                                    UsbInterfaceIndex := lm_Index link \<rparr>
                     in if hasCarrier then st\<lparr> UsbTetheringAvailable := True \<rparr> else st) m
                 else m);
            m = (if isUp \<and> \<not> isUsbInterface sys ifaceName then
                   Update (\<lambda>st. st\<lparr> InterfaceName := lm_Name link,
                                      MacAddress := lm_Address link,
                                      ConnectionType := getConnectionType sys (lm_Name link) \<rparr>) m
                 else m)
        in fetchInterfaces_loop sys links m)"

definition fetchInterfaces :: "Sysfs \<Rightarrow> LinkMessage list option \<Rightarrow> Manager \<Rightarrow> Manager" where
  "fetchInterfaces sys links m =
     (case links of None \<Rightarrow> m | Some ls \<Rightarrow> fetchInterfaces_loop sys ls m)"

text \<open>
  \<open>fetchAddresses\<close>: the interface name is read once, before the loops; for each address
  the first link with its index and that name gets the address stored.
\<close>

fun fetchAddresses_loop ::
  "(IP \<Rightarrow> string) \<Rightarrow> string \<Rightarrow> LinkMessage list \<Rightarrow> AddressMessage list \<Rightarrow> Manager \<Rightarrow> Manager" where
  "fetchAddresses_loop ipString name links [] m = m"
| "fetchAddresses_loop ipString name links (addr # addrs) m =
     (let m = (if list_ex (\<lambda>link. lm_Index link = am_Index addr \<and> lm_Name link = name) links
               then Update (\<lambda>s. if am_Address addr \<noteq> []
                                 then s\<lparr> IpAddress := ipString (am_Address addr) \<rparr> else s) m
               else m)
      in fetchAddresses_loop ipString name links addrs m)"

definition fetchAddresses ::
  "(IP \<Rightarrow> string) \<Rightarrow> AddressMessage list option \<Rightarrow> LinkMessage list option \<Rightarrow>
   Manager \<Rightarrow> Manager" where
  "fetchAddresses ipString addrs links m =
     (case addrs of
        None \<Rightarrow> m
      | Some as \<Rightarrow>
          fetchAddresses_loop ipString (InterfaceName (Get m))
            (case links of None \<Rightarrow> [] | Some ls \<Rightarrow> ls) as m)"

section \<open>Bus service facade (internal/dbus)\<close>

text \<open>A network as sent on the bus, signature \<open>(ssybu)\<close>.\<close>

type_synonym NetworkDBus = "string \<times> string \<times> uint8 \<times> bool \<times> uint32"

datatype Variant =
  VBool bool | VString string | VInt16 int16 | VByte uint8 | VUint32 uint32
  | VUint64 uint64 | VNetworks "NetworkDBus list" | VStrings "string list"

definition networksToDBus :: "Network list \<Rightarrow> NetworkDBus list" where
  "networksToDBus networks =
     map (\<lambda>n. (SSID n, Security n, Signal n, Connected n, NetFrequency n)) networks"

fun ConnectionState_string :: "ConnectionState \<Rightarrow> string" where
  "ConnectionState_string StateDisconnected = ''disconnected''"
| "ConnectionState_string StateConnecting = ''connecting''"
| "ConnectionState_string StateObtaining = ''obtaining''"
| "ConnectionState_string StateConnected = ''connected''"
| "ConnectionState_string StateFailed = ''failed''"

text \<open>
  \<open>emitPropertiesChanged\<close>: the map literal \<open>changed\<close> that is sent as the body of the
  \<open>PropertiesChanged\<close> signal, as a list of (key, value).
\<close>

definition emitPropertiesChanged :: "State \<Rightarrow> (string \<times> Variant) list" where
  "emitPropertiesChanged st =
     [(''WifiEnabled'', VBool (WifiEnabled st)),
      (''WifiScanning'', VBool (WifiScanning st)),
      (''ConnectionState'', VString (ConnectionState_string (ConnectionState st))),
      (''ActiveSSID'', VString (ActiveSSID st)),
      (''SignalRSSI'', VInt16 (SignalRSSI st)),
      (''SignalStrength'', VByte (SignalStrength st)),
      (''IpAddress'', VString (IpAddress st)),
      (''Gateway'', VString (Gateway st)),
      (''TrafficIn'', VUint64 (TrafficIn st)),
      (''TrafficOut'', VUint64 (TrafficOut st)),
      (''AirplaneMode'', VBool (AirplaneMode st)),
      (''CaptivePortalDetected'', VBool (CaptivePortalDetected st)),
      (''HotspotActive'', VBool (HotspotActive st))]"

text \<open>\<open>onStateChange\<close>: the callback registered with the manager; the signals it emits.\<close>

definition onStateChange :: "State \<Rightarrow> (string \<times> Variant) list list" where
  "onStateChange st = [emitPropertiesChanged st]"

text \<open>The map returned by \<open>GetAll\<close> of the Properties interface (properties.go).\<close>

definition Properties_GetAll :: "State \<Rightarrow> (string \<times> Variant) list" where
  "Properties_GetAll st =
     [(''WifiEnabled'', VBool (WifiEnabled st)),
      (''WifiScanning'', VBool (WifiScanning st)),
      (''ConnectionState'', VString (ConnectionState_string (ConnectionState st))),
      (''ActiveSSID'', VString (ActiveSSID st)),
      (''ConnectingSSID'', VString (ConnectingSSID st)),
      (''ActiveSecurity'', VString (ActiveSecurity st)),
      (''SignalRSSI'', VInt16 (SignalRSSI st)),
      (''SignalStrength'', VByte (SignalStrength st)),
      (''Frequency'', VUint32 (Frequency st)),
      (''IpAddress'', VString (IpAddress st)),
      (''Gateway'', VString (Gateway st)),
      (''MacAddress'', VString (MacAddress st)),
      (''InterfaceName'', VString (InterfaceName st)),
      (''TrafficIn'', VUint64 (TrafficIn st)),
      (''TrafficOut'', VUint64 (TrafficOut st)),
      (''Networks'', VNetworks (networksToDBus (Networks st))),
      (''SavedNetworks'', VStrings (SavedNetworks st)),
      (''AirplaneMode'', VBool (AirplaneMode st)),
      (''CaptivePortalDetected'', VBool (CaptivePortalDetected st)),
      (''HotspotActive'', VBool (HotspotActive st)),
      (''ConnectionType'', VString (ConnectionType st)),
      (''Band'', VString (FrequencyToBand (Frequency st))),
      (''UsbInterfaceDetected'', VBool (UsbInterfaceDetected st)),
      (''UsbTetheringAvailable'', VBool (UsbTetheringAvailable st)),
      (''UsbTetheringConnected'', VBool (UsbTetheringConnected st)),
      (''UsbInterfaceName'', VString (UsbInterfaceName st)),
      (''LastError'', VString (LastError st))]"

text \<open>The names the introspection data of the interface declares (\<open>properties\<close>).\<close>

definition properties :: "string list" where
  "properties =
     [''WifiEnabled'', ''WifiScanning'', ''ConnectionState'', ''ActiveSSID'',
      ''ActiveSecurity'', ''SignalRSSI'', ''SignalStrength'', ''Frequency'', ''IpAddress'',
      ''Gateway'', ''MacAddress'', ''InterfaceName'', ''TrafficIn'', ''TrafficOut'',
      ''Networks'', ''SavedNetworks'', ''AirplaneMode'', ''CaptivePortalDetected'',
      ''HotspotActive'', ''ConnectionType'', ''Band'', ''UsbInterfaceDetected'',
      ''UsbTetheringAvailable'', ''UsbTetheringConnected'', ''UsbInterfaceName'']"


text \<open>
  \<open>ReleaseUsbNetwork\<close>: nothing without a USB interface name; otherwise the detached task
  ends with one update.
\<close>

definition ReleaseUsbNetwork :: "Manager \<Rightarrow> Manager" where
  "ReleaseUsbNetwork m =
     (if UsbInterfaceName (Get m) = [] then m
      else Update (\<lambda>st. st\<lparr> UsbTetheringConnected := False \<rparr>) m)"

section \<open>Traffic sampler (package traffic)\<close>

definition minDeltaBytes :: uint64 where
  "minDeltaBytes = 100"

record Monitor =
  lastRx :: uint64
  lastTx :: uint64
  idleEmitted :: bool


text \<open>
  What the sampler reads from sysfs at one tick: the directory entries of
  \<open>/sys/class/net\<close> in order (\<open>None\<close>: the directory cannot be read), each with whether
  its trimmed \<open>operstate\<close> is \<open>up\<close> (\<open>None\<close>: the file cannot be read), and the two
  counters of an interface (0 for a file that cannot be read or parsed).
\<close>

record NetDir =
  entries :: "(string \<times> bool option) list option"
  readStats :: "string \<Rightarrow> uint64 \<times> uint64"

fun findActive_loop :: "(string \<times> bool option) list \<Rightarrow> string" where
  "findActive_loop [] = []"
| "findActive_loop ((name, up) # es) =
     (if name = ''lo'' then findActive_loop es
      else case up of
        None \<Rightarrow> findActive_loop es
      | Some b \<Rightarrow> if b then name else findActive_loop es)"

definition findActiveInterface :: "NetDir \<Rightarrow> string" where
  "findActiveInterface d = (case entries d of None \<Rightarrow> [] | Some es \<Rightarrow> findActive_loop es)"

text \<open>The interface \<open>sample\<close> reads: the selection at the top of the function.\<close>

definition sample_iface :: "NetDir \<Rightarrow> State \<Rightarrow> string" where
  "sample_iface d st =
     (let iface = InterfaceName st;
          iface = (if (iface = [] \<or> ConnectionState st \<noteq> StateConnected)
                      \<and> UsbTetheringConnected st \<and> UsbInterfaceName st \<noteq> []
                   then UsbInterfaceName st else iface)
      in if iface = [] then findActiveInterface d else iface)"

definition sample :: "NetDir \<Rightarrow> Monitor \<Rightarrow> Manager \<Rightarrow> Monitor \<times> Manager" where
  "sample d mon m =
     (let st = Get m; iface = sample_iface d st in
      if iface = [] then (mon, m)
      else
        let (rx, tx) = readStats d iface in
        if rx = 0 \<and> tx = 0 then (mon, m)
        else
          let deltaRx = (if lastRx mon > 0 then rx - lastRx mon else 0);
              deltaTx = (if lastRx mon > 0 then tx - lastTx mon else 0);
              mon = mon\<lparr> lastRx := rx, lastTx := tx \<rparr>
          in if deltaRx > minDeltaBytes \<or> deltaTx > minDeltaBytes then
               (mon\<lparr> idleEmitted := False \<rparr>,
                Update (\<lambda>s. s\<lparr> TrafficIn := deltaRx, TrafficOut := deltaTx,
                                 InterfaceName := iface \<rparr>) m)
             else if (deltaRx = 0 \<and> deltaTx = 0) \<and> \<not> idleEmitted mon then
               (mon\<lparr> idleEmitted := True \<rparr>,
                Update (\<lambda>s. s\<lparr> TrafficIn := 0, TrafficOut := 0 \<rparr>) m)
             else (mon, m))"

text \<open>
  The traffic values one tick publishes: the (\<open>TrafficIn\<close>, \<open>TrafficOut\<close>) of every snapshot
  the tick hands to the change callback.
\<close>

definition published_by :: "NetDir \<Rightarrow> Monitor \<Rightarrow> Manager \<Rightarrow> (uint64 \<times> uint64) list" where
  "published_by d mon m =
     map (\<lambda>s. (TrafficIn s, TrafficOut s))
       (drop (length (notified m)) (notified (snd (sample d mon m))))"



section \<open>Writers of the USB tethering fields\<close>

text \<open>
  The operations that write \<open>UsbInterfaceDetected\<close>, \<open>UsbTetheringAvailable\<close>,
  \<open>UsbTetheringConnected\<close>, \<open>UsbInterfaceName\<close> or \<open>IpAddress\<close>, as events with what each
  observes of its environment. \<open>EvOther\<close> is any other update of the store.
\<close>

datatype usb_event =
    EvLink Sysfs "LinkMessage option" bool
  | EvAddress Sysfs RtConn int "AddressMessage option" bool
  | EvFetchInterfaces Sysfs "LinkMessage list option"
  | EvFetchAddresses "AddressMessage list option" "LinkMessage list option"
  | EvReleaseUsb
  | EvUsbFallback bool bool string
  | EvOther "State \<Rightarrow> State"

fun usb_step :: "(IP \<Rightarrow> string) \<Rightarrow> Manager \<Rightarrow> usb_event \<Rightarrow> Manager" where
  "usb_step ipString m (EvLink sys data isRemoved) = handleLinkMessage sys data isRemoved m"
| "usb_step ipString m (EvAddress sys rt now data isRemoved) =
     handleAddressMessage ipString sys rt now data isRemoved m"
| "usb_step ipString m (EvFetchInterfaces sys links) = fetchInterfaces sys links m"
| "usb_step ipString m (EvFetchAddresses addrs links) = fetchAddresses ipString addrs links m"
| "usb_step ipString m EvReleaseUsb = ReleaseUsbNetwork m"
| "usb_step ipString m (EvUsbFallback linkUpOk dhcpOk ifaceName) =
     tryUsbFallback linkUpOk dhcpOk ifaceName m"
| "usb_step ipString m (EvOther fn) = Update fn m"

definition usb_run :: "(IP \<Rightarrow> string) \<Rightarrow> Manager \<Rightarrow> usb_event list \<Rightarrow> Manager" where
  "usb_run ipString m evs = foldl (usb_step ipString) m evs"

text \<open>
  The events of the watcher, the initial enumeration and \<open>ReleaseUsbNetwork\<close>; an
  \<open>EvOther\<close> update counts when it leaves the four fields below as they are.
\<close>

fun watcher_event :: "usb_event \<Rightarrow> bool" where
  "watcher_event (EvUsbFallback linkUpOk dhcpOk ifaceName) = False"
| "watcher_event (EvOther fn) =
     (\<forall>st. UsbTetheringConnected (fn st) = UsbTetheringConnected st
          \<and> UsbInterfaceDetected (fn st) = UsbInterfaceDetected st
          \<and> UsbInterfaceName (fn st) = UsbInterfaceName st
          \<and> IpAddress (fn st) = IpAddress st)"
| "watcher_event _ = True"

section \<open>Predicates of the properties\<close>


text \<open>
  The USB fields of a snapshot agree: a connected tethering has a detected interface and
  an address, and a recorded interface name belongs to a detected interface.
\<close>

definition usb_ok :: "State \<Rightarrow> bool" where
  "usb_ok st =
     ((UsbTetheringConnected st \<longrightarrow> UsbInterfaceDetected st \<and> IpAddress st \<noteq> [])
      \<and> (UsbInterfaceName st \<noteq> [] \<longrightarrow> UsbInterfaceDetected st))"

definition mgr_usb_ok :: "Manager \<Rightarrow> bool" where
  "mgr_usb_ok m = (usb_ok (state m) \<and> list_all usb_ok (notified m))"

section \<open>Example inputs\<close>

text \<open>A phone on USB: the interface \<open>usb0\<close> with index 5, and what sysfs says about it.\<close>

definition usb_sysfs :: Sysfs where
  "usb_sysfs = \<lparr> isUsbInterface = (\<lambda>name. name = ''usb0''),
                   isWifiInterface = (\<lambda>name. name = ''wlan0''),
                   isPhysicalInterface = (\<lambda>name. True) \<rparr>"

definition usb0_link :: "bool \<Rightarrow> LinkMessage" where
  "usb0_link carrier = \<lparr> lm_Name = ''usb0'', lm_Index = 5, lm_isUp = False,
                           lm_hasCarrier = carrier, lm_Address = ''02:00:00:00:00:01'' \<rparr>"

text \<open>The routing socket: \<open>usb0\<close> is listed and a default route leaves through index 5.\<close>

definition usb0_rt :: "bool \<Rightarrow> RtConn" where
  "usb0_rt carrier =
     (let routes = Some [\<lparr> rt_DstNil = True, rt_Gateway = Some ''192.0.2.1'',
                            rt_OutIface = 5 \<rparr>]
      in \<lparr> Link_List = Some [usb0_link carrier], Route_List_check = routes,
            Route_List_gateway = routes \<rparr>)"

definition usb0_addr :: AddressMessage where
  "usb0_addr = \<lparr> am_Index = 5, am_Address = [192, 0, 2, 5] \<rparr>"

text \<open>A stand-in for the text form of an address, enough for the addresses used here.\<close>

definition example_ipString :: "IP \<Rightarrow> string" where
  "example_ipString ip = (if ip = [] then ''<nil>'' else ''192.0.2.5'')"

text \<open>
  A supplicant with two networks in range: \<open>Other\<close>, which it reports as connected, and
  \<open>Home\<close>, which it reports as not connected.
\<close>

definition example_bus :: Bus where
  "example_bus =
     \<lparr> GetAll = (\<lambda>path.
          if path = ''/net/1''
          then Some \<lparr> prop_Name = Some ''Other'', prop_Type = Some ''psk'',
                      prop_Connected = Some True, prop_KnownNetwork = None \<rparr>
          else if path = ''/net/2''
          then Some \<lparr> prop_Name = Some ''Home'', prop_Type = Some ''psk'',
                      prop_Connected = Some False, prop_KnownNetwork = Some ''/known/1'' \<rparr>
          else None),
       GetOrderedNetworks = Some [(''/net/1'', - 4000), (''/net/2'', - 6000)] \<rparr>"

text \<open>A store whose active network is \<open>Home\<close>.\<close>

definition example_manager :: Manager where
  "example_manager =
     Update (\<lambda>st. st\<lparr> ConnectionState := StateConnected, ActiveSSID := ''Home'' \<rparr>) NewManager"

text \<open>A sysfs with the loopback and \<open>wlan0\<close>, whose counters read \<open>rx\<close> and \<open>tx\<close>.\<close>

definition example_netdir :: "uint64 \<Rightarrow> uint64 \<Rightarrow> NetDir" where
  "example_netdir rx tx =
     \<lparr> entries = Some [(''lo'', Some True), (''wlan0'', Some True)],
       readStats = (\<lambda>iface. (rx, tx)) \<rparr>"

text \<open>A client whose agent holds the given pending map.\<close>

definition example_client :: "Agent \<Rightarrow> Client" where
  "example_client a =
     \<lparr> devicePath = ''/net/connman/iwd/0/3'', stationPath = ''/net/connman/iwd/0/3'',
       initialized = True, agent = Some a, connectID = 1 \<rparr>"

text \<open>A Station signal that reports only a new \<open>State\<close>.\<close>

definition station_state_props :: "string \<Rightarrow> StationProps" where
  "station_state_props stateStr =
     \<lparr> sp_State = Some stateStr, sp_Scanning = None, sp_ConnectedNetwork = None \<rparr>"

text \<open>
  The store after the phone's link has come up with carrier, the station has connected
  and then disconnected; with it, the interface the handler starts the fallback on.
\<close>

definition after_wifi_loss :: "Manager \<times> string option" where
  "after_wifi_loss =
     handleStationChange example_bus example_bus (station_state_props ''disconnected'')
       (fst (handleStationChange example_bus example_bus (station_state_props ''connected'')
          (handleLinkMessage usb_sysfs (Some (usb0_link True)) False NewManager)))"

section \<open>Properties\<close>

subsection \<open>Signal strength\<close>













subsection \<open>Pending credentials\<close>

lemma since_gt_TTL: "since now t > CredentialTTL \<longleftrightarrow> now - t > CredentialTTL"
  by (auto simp: since_def CredentialTTL_def)




text \<open>
  C5. \<open>RequestPassphrase\<close> on a path with a pending entry at most 30 s old returns the
  stored password and removes the entry; with no entry it fails with \<open>Canceled\<close> and
  leaves the map as it is; with an entry older than 30 s it removes the entry and fails
  with \<open>Canceled\<close>. In every case no entry is pending for the path afterwards.
\<close>

theorem RequestPassphrase_ttl:
  "(pending a p = Some cred \<and> now - Created cred \<le> CredentialTTL \<longrightarrow>
      RequestPassphrase now p a = (ClearPending p a, Inr (Password cred)))
   \<and> (pending a p = None \<longrightarrow>
      (\<exists>msg. RequestPassphrase now p a = (a, Inl (Canceled msg))))
   \<and> (pending a p = Some cred \<and> now - Created cred > CredentialTTL \<longrightarrow>
      (\<exists>msg. RequestPassphrase now p a = (ClearPending p a, Inl (Canceled msg))))
   \<and> pending (fst (RequestPassphrase now p a)) p = None
   \<and> CredentialTTL = 30 * 1000000000"
proof -
  have "CredentialTTL = 30 * 1000000000" by (simp add: CredentialTTL_def)
  then show ?thesis
    by (auto simp: RequestPassphrase_def ClearPending_def since_gt_TTL split: option.splits)
qed

theorem RequestPassphrase_ttl_witness:
  "pending (SetPending 0 ''/net/1'' ''secret'' NewAgent) ''/net/1''
     = Some \<lparr> Password = ''secret'', Created = 0 \<rparr>
   \<and> (30000000000 :: int) - 0 \<le> CredentialTTL
   \<and> RequestPassphrase 30000000000 ''/net/1'' (SetPending 0 ''/net/1'' ''secret'' NewAgent)
       = (ClearPending ''/net/1'' (SetPending 0 ''/net/1'' ''secret'' NewAgent), Inr ''secret'')
   \<and> pending NewAgent ''/net/1'' = None
   \<and> (\<exists>msg. RequestPassphrase 5 ''/net/1'' NewAgent = (NewAgent, Inl (Canceled msg)))
   \<and> (30000000001 :: int) - 0 > CredentialTTL
   \<and> (\<exists>msg. RequestPassphrase 30000000001 ''/net/1''
                (SetPending 0 ''/net/1'' ''secret'' NewAgent)
       = (ClearPending ''/net/1'' (SetPending 0 ''/net/1'' ''secret'' NewAgent),
          Inl (Canceled msg)))"
proof -
  have e: "pending (SetPending 0 ''/net/1'' ''secret'' NewAgent) ''/net/1''
     = Some \<lparr> Password = ''secret'', Created = 0 \<rparr>"
    by (simp add: SetPending_def NewAgent_def)
  have n: "pending NewAgent ''/net/1'' = None" by (simp add: NewAgent_def)
  have t: "(30000000000 :: int) - 0 \<le> CredentialTTL" "(30000000001 :: int) - 0 > CredentialTTL"
    by (simp_all add: CredentialTTL_def)
  show ?thesis
    using e n t
      RequestPassphrase_ttl [where a = "SetPending 0 ''/net/1'' ''secret'' NewAgent"
        and p = "''/net/1''" and cred = "\<lparr> Password = ''secret'', Created = 0 \<rparr>"
        and now = 30000000000]
      RequestPassphrase_ttl [where a = NewAgent and p = "''/net/1''" and now = 5]
      RequestPassphrase_ttl [where a = "SetPending 0 ''/net/1'' ''secret'' NewAgent"
        and p = "''/net/1''" and cred = "\<lparr> Password = ''secret'', Created = 0 \<rparr>"
        and now = 30000000001]
    by simp
qed

subsection \<open>Supplicant disappearance\<close>

text \<open>
  C7. When \<open>NameOwnerChanged\<close> for the supplicant's name reports an owner that was present
  and is now absent, the client is marked uninitialized, its station and device paths
  are cleared, and exactly one update is made: the change callback receives one new
  snapshot, which is the old one with \<open>WifiEnabled = false\<close>, \<open>WifiScanning = false\<close>,
  \<open>ConnectionState = disconnected\<close>, \<open>ActiveSSID\<close> empty and \<open>SignalStrength = 0\<close>.
\<close>

theorem supplicant_disappearance_safe_snapshot:
  assumes "oldOwner \<noteq> []" and "newOwner = []"
  shows "(let (c', m') = onNameOwnerChanged maybeInit ''net.connman.iwd'' oldOwner newOwner c m
          in \<not> initialized c' \<and> stationPath c' = [] \<and> devicePath c' = []
           \<and> notified m' = notified m @ [state m']
           \<and> state m' = (state m)\<lparr> WifiEnabled := False, WifiScanning := False,
                                     ConnectionState := StateDisconnected,
                                     ActiveSSID := [], SignalStrength := 0 \<rparr>
           \<and> \<not> WifiEnabled (state m') \<and> \<not> WifiScanning (state m')
           \<and> ConnectionState (state m') = StateDisconnected
           \<and> ActiveSSID (state m') = [] \<and> SignalStrength (state m') = 0)"
  using assms by (simp add: onNameOwnerChanged_def handleIWDDisappear_def Update_def)

theorem supplicant_disappearance_safe_snapshot_witness:
  "'':1.42'' \<noteq> []
   \<and> (let (c', m') = onNameOwnerChanged (\<lambda>x. x) ''net.connman.iwd'' '':1.42'' []
          \<lparr> devicePath = ''/net/connman/iwd/0/3'', stationPath = ''/net/connman/iwd/0/3'',
            initialized = True, agent = None, connectID = 0 \<rparr>
          (Update (\<lambda>st. st\<lparr> WifiEnabled := True, ConnectionState := StateConnected,
                              ActiveSSID := ''Home'', SignalStrength := 60 \<rparr>) NewManager)
       in \<not> initialized c' \<and> stationPath c' = [] \<and> devicePath c' = []
        \<and> length (notified m') = 2
        \<and> \<not> WifiEnabled (state m') \<and> \<not> WifiScanning (state m')
        \<and> ConnectionState (state m') = StateDisconnected
        \<and> ActiveSSID (state m') = [] \<and> SignalStrength (state m') = 0)"
proof -
  have h: "'':1.42'' \<noteq> []" by simp
  show ?thesis
    using supplicant_disappearance_safe_snapshot [OF h refl, where maybeInit = "\<lambda>x. x"
        and c = "\<lparr> devicePath = ''/net/connman/iwd/0/3'', stationPath = ''/net/connman/iwd/0/3'',
            initialized = True, agent = None, connectID = 0 \<rparr>"
        and m = "Update (\<lambda>st. st\<lparr> WifiEnabled := True, ConnectionState := StateConnected,
                              ActiveSSID := ''Home'', SignalStrength := 60 \<rparr>) NewManager"]
    by (simp add: Update_def NewManager_def split: prod.splits)
qed

subsection \<open>Connect generations\<close>

lemma connect_run_snoc: "connect_run s (evs @ [e]) = connect_step (connect_run s evs) e"
  by (simp add: connect_run_def)

lemma unat_succ_uint64:
  fixes x :: uint64
  assumes "Suc (unat x) < 2 ^ 64"
  shows "unat (x + 1) = Suc (unat x)"
proof -
  have "unat x + unat (1 :: uint64) < 2 ^ LENGTH(64)" using assms by simp
  then have "unat (x + 1) = unat x + unat (1 :: uint64)" by (simp only: unat_add_lem)
  then show ?thesis by simp
qed

lemma connect_counter_invariant:
  "length (filter is_CBegin evs) < 2 ^ 64 \<Longrightarrow>
   unat (connectID (cs_client (connect_run (connect_init c m) evs)))
     = length (filter is_CBegin evs)
   \<and> (\<forall>k g. cs_captured (connect_run (connect_init c m) evs) k = Some g
        \<longrightarrow> unat g \<le> length (filter is_CBegin evs))"
proof (induction evs rule: rev_induct)
  case Nil
  then show ?case by (simp add: connect_run_def connect_init_def)
next
  case (snoc e evs)
  let ?s = "connect_run (connect_init c m) evs"
  show ?case
  proof (cases e)
    case (CBegin k)
    with snoc.prems have b: "Suc (length (filter is_CBegin evs)) < 2 ^ 64" by simp
    then have "length (filter is_CBegin evs) < 2 ^ 64" by simp
    with snoc.IH have ih: "unat (connectID (cs_client ?s)) = length (filter is_CBegin evs)"
      "\<And>k g. cs_captured ?s k = Some g \<Longrightarrow> unat g \<le> length (filter is_CBegin evs)"
      by blast+
    from b ih(1) have "unat (connectID (cs_client ?s) + 1) = Suc (length (filter is_CBegin evs))"
      by (simp add: unat_succ_uint64)
    with ih(2) CBegin show ?thesis
      by (auto simp: connect_run_snoc Connect_begin_def Let_def le_Suc_eq)
  next
    case (CSet k ssid)
    with snoc show ?thesis by (simp add: connect_run_snoc)
  next
    case (CReturn k)
    with snoc show ?thesis by (simp add: connect_run_snoc split: option.splits)
  qed
qed

text \<open>
  C4. Calls of \<open>Connect\<close> interleave freely. If an earlier call has captured generation
  \<open>G\<close> and a later one \<open>G'\<close> with \<open>G < G'\<close>, the return path of the earlier call leaves
  the store untouched, so \<open>ConnectingSSID\<close> keeps the value the later call has set. In
  general the return path writes the store only if the captured generation equals the
  current counter, and then it clears \<open>ConnectingSSID\<close>. The counter is 64 bits wide;
  the run makes fewer than \<open>2^64\<close> calls, so that it has not wrapped around.
\<close>

theorem stale_connect_never_clears:
  assumes "length (filter is_CBegin evs) < 2 ^ 64"
    and "s = connect_run (connect_init c m) evs"
    and "cs_captured s a = Some G" and "cs_captured s b = Some G'" and "G < G'"
  shows "cs_mgr (connect_step s (CReturn a)) = cs_mgr s
       \<and> ConnectingSSID (state (cs_mgr (connect_step s (CReturn a))))
           = ConnectingSSID (state (cs_mgr s))
       \<and> (\<forall>t k g. cs_captured t k = Some g \<longrightarrow>
            (if g = connectID (cs_client t)
             then cs_mgr (connect_step t (CReturn k))
                    = Update (\<lambda>st. st\<lparr> ConnectingSSID := [] \<rparr>) (cs_mgr t)
             else cs_mgr (connect_step t (CReturn k)) = cs_mgr t))"
proof -
  from assms(1,2) connect_counter_invariant [of evs c m]
  have cnt: "unat (connectID (cs_client s)) = length (filter is_CBegin evs)"
    and cap: "\<And>k g. cs_captured s k = Some g \<Longrightarrow> unat g \<le> length (filter is_CBegin evs)"
    by blast+
  from assms(5) have "unat G < unat G'" by (simp add: word_less_nat_alt)
  also from cap assms(4) have "unat G' \<le> length (filter is_CBegin evs)" by blast
  finally have "unat G \<noteq> unat (connectID (cs_client s))" using cnt by simp
  then have "connectID (cs_client s) \<noteq> G" by auto
  with assms(3) have "cs_mgr (connect_step s (CReturn a)) = cs_mgr s"
    by (simp add: Connect_clear_def)
  moreover have "\<forall>t k g. cs_captured t k = Some g \<longrightarrow>
            (if g = connectID (cs_client t)
             then cs_mgr (connect_step t (CReturn k))
                    = Update (\<lambda>st. st\<lparr> ConnectingSSID := [] \<rparr>) (cs_mgr t)
             else cs_mgr (connect_step t (CReturn k)) = cs_mgr t)"
    by (auto simp: Connect_clear_def)
  ultimately show ?thesis by simp
qed

theorem stale_connect_never_clears_witness:
  "length (filter is_CBegin [CBegin 0, CSet 0 ''A'', CBegin 1, CSet 1 ''B'']) < 2 ^ 64
   \<and> cs_captured (connect_run
        (connect_init \<lparr> devicePath = [], stationPath = [], initialized = True,
                        agent = None, connectID = 0 \<rparr> NewManager)
        [CBegin 0, CSet 0 ''A'', CBegin 1, CSet 1 ''B'']) 0 = Some 1
   \<and> cs_captured (connect_run
        (connect_init \<lparr> devicePath = [], stationPath = [], initialized = True,
                        agent = None, connectID = 0 \<rparr> NewManager)
        [CBegin 0, CSet 0 ''A'', CBegin 1, CSet 1 ''B'']) 1 = Some 2
   \<and> (1 :: uint64) < 2
   \<and> ConnectingSSID (state (cs_mgr (connect_run
        (connect_init \<lparr> devicePath = [], stationPath = [], initialized = True,
                        agent = None, connectID = 0 \<rparr> NewManager)
        [CBegin 0, CSet 0 ''A'', CBegin 1, CSet 1 ''B'', CReturn 0]))) = ''B''"
proof -
  let ?c = "\<lparr> devicePath = [], stationPath = [], initialized = True,
              agent = None, connectID = 0 \<rparr>"
  let ?evs = "[CBegin 0, CSet 0 ''A'', CBegin 1, CSet 1 ''B'']"
  have n: "length (filter is_CBegin ?evs) < 2 ^ 64" by simp
  have a: "cs_captured (connect_run (connect_init ?c NewManager) ?evs) 0 = Some 1"
    by (simp add: connect_run_def connect_init_def Connect_begin_def)
  have b: "cs_captured (connect_run (connect_init ?c NewManager) ?evs) 1 = Some 2"
    by (simp add: connect_run_def connect_init_def Connect_begin_def)
  have l: "(1 :: uint64) < 2" by simp
  have r: "connect_run (connect_init ?c NewManager) (?evs @ [CReturn 0])
         = connect_step (connect_run (connect_init ?c NewManager) ?evs) (CReturn 0)"
    by (rule connect_run_snoc)
  have v: "ConnectingSSID (state (cs_mgr (connect_run (connect_init ?c NewManager) ?evs))) = ''B''"
    by (simp add: connect_run_def connect_init_def Connect_begin_def Update_def)
  from stale_connect_never_clears [OF n refl a b l] r v
  have "ConnectingSSID (state (cs_mgr (connect_run (connect_init ?c NewManager)
          (?evs @ [CReturn 0])))) = ''B''"
    by simp
  with n a b l show ?thesis by simp
qed

subsection \<open>USB tethering\<close>

lemma mgr_usb_ok_Update:
  assumes "\<And>st. usb_ok st \<Longrightarrow> usb_ok (fn st)" and "mgr_usb_ok m"
  shows "mgr_usb_ok (Update fn m)"
  using assms by (simp add: mgr_usb_ok_def Update_def)

lemma usb_ok_addressMutator:
  assumes "ifaceName \<noteq> []" and "ipText \<noteq> []" and "usb_ok st"
  shows "usb_ok (addressMutator isUsb hasRoute ifaceName ipText st)"
  using assms by (auto simp: usb_ok_def addressMutator_def Let_def)

lemma mgr_usb_ok_fetchGateway: "mgr_usb_ok m \<Longrightarrow> mgr_usb_ok (fetchGateway routes m)"
  by (auto simp: fetchGateway_def usb_ok_def intro!: mgr_usb_ok_Update split: option.splits)

lemma mgr_usb_ok_handleLinkMessage:
  "mgr_usb_ok m \<Longrightarrow> mgr_usb_ok (handleLinkMessage sys data isRemoved m)"
  unfolding handleLinkMessage_def Let_def
  by (auto split: option.splits intro!: mgr_usb_ok_Update simp: usb_ok_def)

lemma mgr_usb_ok_handleAddressMessage:
  assumes "\<And>ip. ipString ip \<noteq> []" and "mgr_usb_ok m"
  shows "mgr_usb_ok (handleAddressMessage ipString sys rt now data isRemoved m)"
proof -
  have w: "mgr_usb_ok (Update (\<lambda>st. st\<lparr> WasResumed := False, WeatherTriggered := True \<rparr>) m')"
    "mgr_usb_ok (Update (\<lambda>st. st\<lparr> IsStartup := False, WeatherTriggered := True \<rparr>) m')"
    if "mgr_usb_ok m'" for m'
    using that by (auto intro!: mgr_usb_ok_Update simp: usb_ok_def)
  have a: "mgr_usb_ok (Update (addressMutator isUsb hasRoute ifaceName (ipString ip)) m)"
    if "ifaceName \<noteq> []" for isUsb hasRoute ifaceName ip
    using that assms by (auto intro!: mgr_usb_ok_Update usb_ok_addressMutator)
  show ?thesis
    unfolding handleAddressMessage_def Let_def
    using assms(2) by (auto split: option.splits intro!: mgr_usb_ok_fetchGateway w a)
qed

lemma mgr_usb_ok_fetchInterfaces_loop:
  "mgr_usb_ok m \<Longrightarrow> mgr_usb_ok (fetchInterfaces_loop sys links m)"
proof (induction links arbitrary: m)
  case Nil
  then show ?case by simp
next
  case (Cons link links)
  show ?case
    using Cons.prems
    by (auto simp: Let_def usb_ok_def intro!: Cons.IH mgr_usb_ok_Update)
qed

lemma mgr_usb_ok_fetchAddresses_loop:
  assumes "\<And>ip. ipString ip \<noteq> []"
  shows "mgr_usb_ok m \<Longrightarrow> mgr_usb_ok (fetchAddresses_loop ipString name links addrs m)"
proof (induction addrs arbitrary: m)
  case Nil
  then show ?case by simp
next
  case (Cons addr addrs)
  show ?case
    using Cons.prems assms
    by (auto simp: Let_def usb_ok_def intro!: Cons.IH mgr_usb_ok_Update)
qed

lemma mgr_usb_ok_step:
  assumes "\<And>ip. ipString ip \<noteq> []" and "watcher_event e" and "mgr_usb_ok m"
  shows "mgr_usb_ok (usb_step ipString m e)"
proof (cases e)
  case (EvLink sys data isRemoved)
  with assms show ?thesis by (simp add: mgr_usb_ok_handleLinkMessage)
next
  case (EvAddress sys rt now data isRemoved)
  with assms show ?thesis by (simp add: mgr_usb_ok_handleAddressMessage)
next
  case (EvFetchInterfaces sys links)
  with assms show ?thesis
    by (simp add: fetchInterfaces_def mgr_usb_ok_fetchInterfaces_loop split: option.splits)
next
  case (EvFetchAddresses addrs links)
  with assms show ?thesis
    by (simp add: fetchAddresses_def mgr_usb_ok_fetchAddresses_loop split: option.splits)
next
  case EvReleaseUsb
  with assms(3) show ?thesis
    by (auto simp: ReleaseUsbNetwork_def usb_ok_def intro!: mgr_usb_ok_Update)
next
  case (EvUsbFallback linkUpOk dhcpOk ifaceName)
  with assms(2) show ?thesis by simp
next
  case (EvOther fn)
  with assms(2) have "\<And>st. usb_ok st \<Longrightarrow> usb_ok (fn st)"
    by (simp add: usb_ok_def)
  with EvOther assms(3) show ?thesis by (simp add: mgr_usb_ok_Update)
qed

lemma mgr_usb_ok_run:
  assumes "\<And>ip. ipString ip \<noteq> []"
  shows "mgr_usb_ok m \<Longrightarrow> \<forall>e\<in>set evs. watcher_event e \<Longrightarrow> mgr_usb_ok (usb_run ipString m evs)"
proof (induction evs arbitrary: m)
  case Nil
  then show ?case by (simp add: usb_run_def)
next
  case (Cons e evs)
  from Cons.prems assms have "mgr_usb_ok (usb_step ipString m e)"
    by (simp add: mgr_usb_ok_step)
  with Cons.IH [of "usb_step ipString m e"] Cons.prems(2) show ?case
    by (simp add: usb_run_def)
qed

text \<open>
  C3, as the claim states it, fails: the address handler sets \<open>UsbTetheringConnected\<close> from
  the address and the default route alone. The link of \<open>usb0\<close> is reported without
  carrier, then an address arrives on it while a default route leaves through it. The
  fallback writes the flag without looking at the store: started when the station
  disconnects, it may finish after the link of \<open>usb0\<close> has been removed.
\<close>

theorem usb_connected_without_available:
  "UsbTetheringConnected (state (usb_run example_ipString NewManager
      [EvLink usb_sysfs (Some (usb0_link False)) False,
       EvAddress usb_sysfs (usb0_rt False) 0 (Some usb0_addr) False]))
   \<and> \<not> UsbTetheringAvailable (state (usb_run example_ipString NewManager
      [EvLink usb_sysfs (Some (usb0_link False)) False,
       EvAddress usb_sysfs (usb0_rt False) 0 (Some usb0_addr) False]))
   \<and> snd after_wifi_loss = Some ''usb0''
   \<and> UsbTetheringConnected (state (tryUsbFallback True True ''usb0''
        (handleLinkMessage usb_sysfs (Some (usb0_link True)) True (fst after_wifi_loss))))
   \<and> \<not> UsbInterfaceDetected (state (tryUsbFallback True True ''usb0''
        (handleLinkMessage usb_sysfs (Some (usb0_link True)) True (fst after_wifi_loss))))
   \<and> IpAddress (state (tryUsbFallback True True ''usb0''
        (handleLinkMessage usb_sysfs (Some (usb0_link True)) True (fst after_wifi_loss)))) = []"
  by (simp add: usb_run_def handleLinkMessage_def handleAddressMessage_def addressMutator_def
      usb_sysfs_def usb0_link_def usb0_rt_def usb0_addr_def example_ipString_def
      checkDefaultRouteViaInterface_def fetchGateway_def Update_def Get_def NewManager_def
      zero_State_def Let_def handleStationChange_def stationChangeMutator_def
      stationStateMutator_def tryUsbFallback_def after_wifi_loss_def station_state_props_def)

text \<open>
  C3, amended. Take any run of the netlink watcher's handlers, the initial enumeration,
  \<open>ReleaseUsbNetwork\<close> and updates that do not write the USB fields or the address,
  starting from the initial store. In the final snapshot and in every snapshot handed
  to the change callback on the way, \<open>UsbTetheringConnected\<close> implies
  \<open>UsbInterfaceDetected\<close> and a non-empty \<open>IpAddress\<close>. (\<open>UsbTetheringAvailable\<close> is not
  implied, and the write of \<open>tryUsbFallback\<close> is not part of these runs.) The text form
  of an address is never empty.
\<close>

theorem usb_connected_implies_detected_and_address:
  assumes "\<And>ip. ipString ip \<noteq> []" and "\<forall>e\<in>set evs. watcher_event e"
  shows "\<forall>snap \<in> set (state (usb_run ipString NewManager evs)
                       # notified (usb_run ipString NewManager evs)).
           UsbTetheringConnected snap \<longrightarrow> UsbInterfaceDetected snap \<and> IpAddress snap \<noteq> []"
proof -
  have "mgr_usb_ok NewManager"
    by (simp add: mgr_usb_ok_def usb_ok_def NewManager_def zero_State_def)
  with assms have "mgr_usb_ok (usb_run ipString NewManager evs)"
    by (simp add: mgr_usb_ok_run)
  then show ?thesis
    by (auto simp: mgr_usb_ok_def usb_ok_def list_all_iff)
qed

theorem usb_connected_implies_detected_and_address_witness:
  "(\<forall>ip. example_ipString ip \<noteq> [])
   \<and> watcher_event (EvLink usb_sysfs (Some (usb0_link True)) False)
   \<and> watcher_event (EvAddress usb_sysfs (usb0_rt True) 0 (Some usb0_addr) False)
   \<and> UsbTetheringConnected (state (usb_run example_ipString NewManager
        [EvLink usb_sysfs (Some (usb0_link True)) False,
         EvAddress usb_sysfs (usb0_rt True) 0 (Some usb0_addr) False]))
   \<and> UsbInterfaceDetected (state (usb_run example_ipString NewManager
        [EvLink usb_sysfs (Some (usb0_link True)) False,
         EvAddress usb_sysfs (usb0_rt True) 0 (Some usb0_addr) False]))
   \<and> IpAddress (state (usb_run example_ipString NewManager
        [EvLink usb_sysfs (Some (usb0_link True)) False,
         EvAddress usb_sysfs (usb0_rt True) 0 (Some usb0_addr) False])) \<noteq> []"
proof -
  let ?evs = "[EvLink usb_sysfs (Some (usb0_link True)) False,
               EvAddress usb_sysfs (usb0_rt True) 0 (Some usb0_addr) False]"
  have i: "\<And>ip. example_ipString ip \<noteq> []" by (simp add: example_ipString_def)
  have w: "\<forall>e\<in>set ?evs. watcher_event e" by simp
  have c: "UsbTetheringConnected (state (usb_run example_ipString NewManager ?evs))"
    by (simp add: usb_run_def handleLinkMessage_def handleAddressMessage_def addressMutator_def
      usb_sysfs_def usb0_link_def usb0_rt_def usb0_addr_def example_ipString_def
      checkDefaultRouteViaInterface_def fetchGateway_def Update_def Get_def NewManager_def
      zero_State_def Let_def)
  from usb_connected_implies_detected_and_address [OF i w] c
  have "UsbInterfaceDetected (state (usb_run example_ipString NewManager ?evs))
      \<and> IpAddress (state (usb_run example_ipString NewManager ?evs)) \<noteq> []"
    by simp
  with i c show ?thesis by simp
qed

subsection \<open>Published networks and change notifications\<close>

text \<open>
  C1: the code at a failing input. The active network is \<open>Home\<close>; the supplicant reports
  \<open>Other\<close> as connected. The published list marks both as connected: the flag reported
  for \<open>Other\<close> is kept, although its SSID is not the active one.
\<close>

theorem fetch_keeps_reported_connected_flag:
  "ActiveSSID (Get example_manager) = ''Home''
   \<and> map (\<lambda>n. (SSID n, Connected n)) (Networks (state (publishNetworks example_bus example_manager)))
       = [(''Other'', True), (''Home'', True)]"
  by (simp add: publishNetworks_def fetchNetworksFromIWD_def getNetworkInfo_def example_bus_def
      example_manager_def Update_def Get_def NewManager_def zero_State_def Let_def)

text \<open>
  C6: the code at every snapshot. The signal body has thirteen keys; fourteen of the keys
  that \<open>GetAll\<close> serves are absent from it, \<open>Networks\<close> and \<open>ConnectingSSID\<close> among them.
\<close>

theorem emitPropertiesChanged_omits_properties:
  "onStateChange st = [emitPropertiesChanged st]
   \<and> map fst (emitPropertiesChanged st) =
       [''WifiEnabled'', ''WifiScanning'', ''ConnectionState'', ''ActiveSSID'', ''SignalRSSI'',
        ''SignalStrength'', ''IpAddress'', ''Gateway'', ''TrafficIn'', ''TrafficOut'',
        ''AirplaneMode'', ''CaptivePortalDetected'', ''HotspotActive'']
   \<and> filter (\<lambda>k. k \<notin> set (map fst (emitPropertiesChanged st))) (map fst (Properties_GetAll st)) =
       [''ConnectingSSID'', ''ActiveSecurity'', ''Frequency'', ''MacAddress'', ''InterfaceName'',
        ''Networks'', ''SavedNetworks'', ''ConnectionType'', ''Band'', ''UsbInterfaceDetected'',
        ''UsbTetheringAvailable'', ''UsbTetheringConnected'', ''UsbInterfaceName'', ''LastError'']"
  by (simp add: onStateChange_def emitPropertiesChanged_def Properties_GetAll_def)

subsection \<open>Traffic sampler\<close>

lemma drop_notified_Update:
  "drop (length (notified m)) (notified (Update fn m)) = [fn (state m)]"
  by (simp add: Update_def)

lemma published_by_eq:
  "published_by d mon m =
     (let iface = sample_iface d (Get m);
          rx = fst (readStats d iface); tx = snd (readStats d iface);
          deltaRx = (if lastRx mon > 0 then rx - lastRx mon else 0);
          deltaTx = (if lastRx mon > 0 then tx - lastTx mon else 0)
      in if iface = [] \<or> (rx = 0 \<and> tx = 0) then []
         else if deltaRx > 100 \<or> deltaTx > 100 then [(deltaRx, deltaTx)]
         else if deltaRx = 0 \<and> deltaTx = 0 \<and> \<not> idleEmitted mon then [(0, 0)]
         else [])"
  by (cases "readStats d (sample_iface d (Get m))"; cases "lastRx mon = 0")
    (auto simp: published_by_def sample_def Let_def minDeltaBytes_def drop_notified_Update
      word_gt_0)











subsection \<open>Hidden networks\<close>

lemma find_network_absent:
  "ssid \<notin> SSID ` set networks \<Longrightarrow> find_network networks ssid = ([], [])"
  by (induction networks) auto

text \<open>
  C9, as the claim states it, fails: a credential that an earlier \<open>Connect\<close> left pending
  under the real path is still found. Here \<open>/net/7\<close> holds one, created at instant 0; the
  hidden connect at instant 1 stores its own under the empty path, and a request for
  \<open>/net/7\<close> at instant 2 is answered with the earlier password.
\<close>

theorem hidden_connect_earlier_credential_found:
  "map_sum id fst (Connect_prepare 1 (Inr []) ''Hidden'' ''secret'' ''psk'' True
      (example_client (SetPending 0 ''/net/7'' ''earlier'' NewAgent)) NewManager) = Inr []
   \<and> map_sum id (fst \<circ> snd) (Connect_prepare 1 (Inr []) ''Hidden'' ''secret'' ''psk'' True
      (example_client (SetPending 0 ''/net/7'' ''earlier'' NewAgent)) NewManager)
     = Inr (example_client
         (SetPending 1 [] ''secret'' (SetPending 0 ''/net/7'' ''earlier'' NewAgent)))
   \<and> snd (RequestPassphrase 2 ''/net/7''
        (SetPending 1 [] ''secret'' (SetPending 0 ''/net/7'' ''earlier'' NewAgent)))
     = Inr ''earlier''"
  by (simp add: Connect_prepare_def example_client_def SetPending_def NewAgent_def
      RequestPassphrase_def since_def CredentialTTL_def)

text \<open>
  C9, amended. A hidden \<open>Connect\<close> with a non-empty password and security \<open>psk\<close>, for an
  SSID that is not among the scanned networks, resolves the empty network path and
  stores its credential under it; the entries under every other path stay as they were.
  So a later \<open>RequestPassphrase\<close> on the real, non-empty path of the network does not find
  this credential: unless an entry was already pending under that path, it finds none
  and fails with \<open>Canceled\<close>.
\<close>

theorem hidden_connect_pending_under_empty_path:
  assumes "password \<noteq> []" and "security = ''psk''" and "ssid \<notin> SSID ` set networks"
    and "agent c = Some a" and "p \<noteq> []"
  shows "\<exists>a' m'. Connect_prepare now (Inr networks) ssid password security True c m
                   = Inr ([], c\<lparr> agent := Some a' \<rparr>, m')
          \<and> a' = SetPending now [] password a
          \<and> pending a' [] = Some \<lparr> Password = password, Created = now \<rparr>
          \<and> pending a' p = pending a p
          \<and> ConnectingSSID (state m') = ssid
          \<and> (pending a p = None \<longrightarrow>
               RequestPassphrase later p a' = (a', Inl (Canceled ''No credential available'')))"
  using assms
  by (simp add: Connect_prepare_def find_network_absent SetPending_def RequestPassphrase_def
      Update_def)

theorem hidden_connect_pending_under_empty_path_witness:
  "''secret'' \<noteq> [] \<and> ''Hidden'' \<notin> SSID ` set []
   \<and> agent (example_client NewAgent) = Some NewAgent \<and> ''/net/7'' \<noteq> []
   \<and> pending NewAgent ''/net/7'' = None
   \<and> (\<exists>m'. Connect_prepare 1 (Inr []) ''Hidden'' ''secret'' ''psk'' True
               (example_client NewAgent) NewManager
             = Inr ([], (example_client NewAgent)
                          \<lparr> agent := Some (SetPending 1 [] ''secret'' NewAgent) \<rparr>, m'))
   \<and> RequestPassphrase 2 ''/net/7'' (SetPending 1 [] ''secret'' NewAgent)
       = (SetPending 1 [] ''secret'' NewAgent, Inl (Canceled ''No credential available''))"
proof -
  have h: "''secret'' \<noteq> []" "''Hidden'' \<notin> SSID ` set []"
    "agent (example_client NewAgent) = Some NewAgent" "''/net/7'' \<noteq> []"
    by (simp_all add: example_client_def)
  have n: "pending NewAgent ''/net/7'' = None" by (simp add: NewAgent_def)
  from hidden_connect_pending_under_empty_path [OF h(1) refl h(2) h(3) h(4),
      where now = 1 and m = NewManager and later = 2] n
  show ?thesis using h by auto
qed

subsection \<open>Counter differences\<close>

lemma unat_sub_wrap:
  fixes x y :: uint64
  assumes "x < y"
  shows "unat (x - y) = 2 ^ 64 - (unat y - unat x)"
proof -
  from assms have lt: "unat x < unat y" by (simp add: word_less_nat_alt)
  have "unat y < 2 ^ 64" using unsigned_less [of y] by simp
  with lt show ?thesis by (simp add: unat_sub_if_size word_size)
qed

text \<open>
  C10, as the claim states it, fails at two kinds of sample with a smaller reading. When
  both counters read 0 (an interface that has just been created again), the sample
  returns before any delta is computed and nothing is published. When the previous
  reading is within 100 bytes of \<open>2^64\<close>, the wrapped difference is small: from
  \<open>2^64 - 1\<close> to 5 it is 6, which is not above the threshold.
\<close>

theorem smaller_reading_not_published:
  "published_by (example_netdir 0 0)
     \<lparr> lastRx = 1000, lastTx = 1000, idleEmitted = False \<rparr> NewManager = []
   \<and> sample (example_netdir 0 0)
       \<lparr> lastRx = 1000, lastTx = 1000, idleEmitted = False \<rparr> NewManager
      = (\<lparr> lastRx = 1000, lastTx = 1000, idleEmitted = False \<rparr>, NewManager)
   \<and> (5 :: uint64) - 18446744073709551615 = 6
   \<and> published_by (example_netdir 5 7)
       \<lparr> lastRx = 18446744073709551615, lastTx = 7, idleEmitted = False \<rparr> NewManager = []"
  by (simp add: published_by_eq sample_def sample_iface_def findActiveInterface_def
      example_netdir_def NewManager_def zero_State_def Get_def Let_def)

text \<open>
  C10, amended. Deltas are 64-bit unsigned differences. For a sample that reads an
  interface, whose two readings are not both 0, with a previous reading present and a
  receive reading below the previous one, the delta is (current - previous) modulo
  \<open>2^64\<close>, that is \<open>2^64 - (previous - current)\<close>. Whenever the drop
  previous - current is less than \<open>2^64 - 100\<close>, the delta exceeds the threshold of
  100 bytes and is published as \<open>TrafficIn\<close>.
\<close>

theorem wrapped_delta_published:
  assumes "lastRx mon > 0" and "sample_iface d (Get m) \<noteq> []"
    and "readStats d (sample_iface d (Get m)) = (rx, tx)" and "\<not> (rx = 0 \<and> tx = 0)"
    and "rx < lastRx mon" and "unat (lastRx mon) - unat rx < 2 ^ 64 - 100"
  shows "uint (rx - lastRx mon) = (uint rx - uint (lastRx mon)) mod 2 ^ 64
       \<and> unat (rx - lastRx mon) = 2 ^ 64 - (unat (lastRx mon) - unat rx)
       \<and> rx - lastRx mon > minDeltaBytes
       \<and> published_by d mon m = [(rx - lastRx mon, tx - lastTx mon)]
       \<and> TrafficIn (state (snd (sample d mon m))) = rx - lastRx mon"
proof -
  have u: "unat (rx - lastRx mon) = 2 ^ 64 - (unat (lastRx mon) - unat rx)"
    using assms(5) by (rule unat_sub_wrap)
  from assms(5) have "unat rx < unat (lastRx mon)" by (simp add: word_less_nat_alt)
  with u assms(6) have "100 < unat (rx - lastRx mon)" by simp
  then have g: "rx - lastRx mon > 100"
    by (simp add: word_less_nat_alt)
  have i: "uint (rx - lastRx mon) = (uint rx - uint (lastRx mon)) mod 2 ^ 64"
    by (simp add: uint_word_ariths)
  from g assms(1-4) have p: "published_by d mon m = [(rx - lastRx mon, tx - lastTx mon)]"
    by (auto simp: published_by_eq Let_def)
  from g assms(1-4) have t: "TrafficIn (state (snd (sample d mon m))) = rx - lastRx mon"
    by (auto simp: sample_def Let_def minDeltaBytes_def Update_def)
  from u g i p t show ?thesis by (simp add: minDeltaBytes_def)
qed

theorem wrapped_delta_published_witness:
  "(0 :: uint64) < 5000
   \<and> sample_iface (example_netdir 1200 9000) (Get NewManager) \<noteq> []
   \<and> (1200 :: uint64) < 5000
   \<and> unat (5000 :: uint64) - unat (1200 :: uint64) < 2 ^ 64 - 100
   \<and> (1200 :: uint64) - 5000 = 18446744073709547816
   \<and> published_by (example_netdir 1200 9000)
        \<lparr> lastRx = 5000, lastTx = 8000, idleEmitted = False \<rparr> NewManager
      = [(18446744073709547816, 1000)]"
proof -
  let ?mon = "\<lparr> lastRx = 5000, lastTx = 8000, idleEmitted = False \<rparr>"
  have a: "lastRx ?mon > 0" by simp
  have b: "sample_iface (example_netdir 1200 9000) (Get NewManager) \<noteq> []"
    by (simp add: sample_iface_def findActiveInterface_def example_netdir_def
        NewManager_def zero_State_def Get_def Let_def)
  have c: "readStats (example_netdir 1200 9000)
             (sample_iface (example_netdir 1200 9000) (Get NewManager)) = (1200, 9000)"
    by (simp add: example_netdir_def)
  have e: "\<not> ((1200 :: uint64) = 0 \<and> (9000 :: uint64) = 0)" by simp
  have f: "(1200 :: uint64) < lastRx ?mon" by simp
  have g: "unat (lastRx ?mon) - unat (1200 :: uint64) < 2 ^ 64 - 100" by simp
  from wrapped_delta_published [OF a b c e f g] b show ?thesis by simp
qed

end
